theory Spec2Isabelle
  imports Complex_Main
begin

section \<open>Data model\<close>

text \<open>
  The program is the single method \<open>Importer.start\<close>. The repository holds it twice:
  the compiled \<^verbatim>\<open>src/Importer.js\<close> and the TypeScript text \<^verbatim>\<open>src/unnamed/part_000\<close>.
  The two agree on everything but the metadata query, the extraction after it, the ninth
  cell of a row and the header text; the model takes the file as a parameter.
\<close>

datatype variant = Importer_js | Importer_ts

text \<open>
  A value of a sheet cell. A JSON number is a finite double, hence a rational; the only
  thing the code asks of it is whether it is zero.
\<close>

datatype jsval = JNum rat | JStr string | JUndefined | JNull

type_synonym row = "jsval list"

text \<open>What the issue listing returns, with the fields \<open>start\<close> reads.\<close>

record label =
  name :: string

record assignee =
  login :: string

record milestone =
  ms_title :: string
  ms_state :: string
  ms_due_on :: "string option"

record issue =
  number :: int
  state :: string
  title :: string
  html_url :: string
  labels :: "label list"
  assignees :: "assignee list"
  milestone :: "milestone option"
  node_id :: string
  pull_request :: "string option"

text \<open>
  The answer of the metadata query, as the JSON object it is: every field may be missing
  (\<open>None\<close> stands for both \<open>null\<close> and \<open>undefined\<close>). The compiled file asks for
  \<open>fieldValueByName\<close> without an alias, the TypeScript text for the aliases \<open>status\<close> and
  \<open>storyPoints\<close>.
\<close>

record field_value =
  fv_name :: "string option"
  fv_number :: "rat option"

record project_item =
  fieldValueByName :: "field_value option"
  status :: "field_value option"
  storyPoints :: "field_value option"

record project_items =
  nodes :: "project_item option list option"

record gql_node =
  projectItems :: "project_items option"

record response =
  node :: "gql_node option"

text \<open>
  Errors are values. \<open>MissingInput\<close> is the \<open>Error\<close> thrown by the input check
  ("Some Inputs missed. Please check project README."), \<open>TypeError\<close> is a property read
  on \<open>null\<close> or \<open>undefined\<close>, \<open>External\<close> is an \<open>Error\<close> a collaborator
  throws, with its message. JavaScript lets a collaborator throw any value:
  \<open>Unprintable\<close> stands for a thrown value that is not an \<open>Error\<close> and that
  \<open>JSON.stringify\<close> refuses (an object that refers to itself).
\<close>

datatype error = MissingInput | TypeError | External string | Unprintable

subsection \<open>The collaborators\<close>

record list_params =
  lp_owner :: string
  lp_repo :: string
  lp_state :: string
  lp_page :: nat

record clear_params =
  cl_spreadsheetId :: string
  cl_range :: string

record append_params =
  ap_spreadsheetId :: string
  ap_range :: string
  ap_valueInputOption :: string
  ap_majorDimension :: string
  ap_body_range :: string
  ap_values :: "row list"

datatype query = GetStoryPoints | GetStatusAndStoryPoints

text \<open>The calls that leave the process, in the order they are made.\<close>

datatype call =
    ListForRepo list_params
  | Graphql query string
  | Clear clear_params
  | Append append_params

text \<open>
  The environment of a run: the three inputs (\<open>Core.getInput\<close> gives the empty string for
  an input that is not set), the repository coordinate of the context, and the answers of
  the collaborators. \<open>new_Octokit\<close> and \<open>JSON_parse\<close> are \<open>Some e\<close> when the
  constructor, respectively \<open>JSON.parse\<close> of the credentials, throws \<open>e\<close>.
\<close>

record env =
  input_credentials :: string
  input_document_id :: string
  input_sheet_name :: string
  context_owner :: string
  context_repo :: string
  new_Octokit :: "error option"
  listForRepo :: "list_params \<Rightarrow> error + issue list"
  graphql :: "query \<Rightarrow> string \<Rightarrow> error + response"
  JSON_parse :: "string \<Rightarrow> error option"
  sheets_clear :: "clear_params \<Rightarrow> error option"
  sheets_append :: "append_params \<Rightarrow> error option"

text \<open>
  The world a run changes: the calls made so far and the rows of the destination tab.
  A successful \<open>clear\<close> empties the tab; a successful \<open>append\<close> puts its rows beneath
  the rows already there.
\<close>

record world =
  calls :: "call list"
  sheet :: "row list"

section \<open>The run\<close>

subsection \<open>Input check\<close>

definition check_inputs :: "env \<Rightarrow> error + unit" where
  "check_inputs e =
     (if input_credentials e = [] \<or> input_document_id e = [] \<or> input_sheet_name e = []
      then Inl MissingInput else Inr ())"

subsection \<open>Fetching all pages\<close>

definition list_request :: "env \<Rightarrow> nat \<Rightarrow> list_params" where
  "list_request e page =
     \<lparr>lp_owner = context_owner e, lp_repo = context_repo e, lp_state = ''all'',
      lp_page = page\<rparr>"

text \<open>
  The \<open>do ... while\<close> loop. Nothing bounds it: it ends at the first empty page or at the
  first failing request, and a run that never ends has the value \<open>None\<close>.
\<close>

partial_function (option) fetch_loop ::
  "env \<Rightarrow> nat \<Rightarrow> issue list \<Rightarrow> call list \<Rightarrow> ((error + issue list) \<times> call list) option"
where
  "fetch_loop e page issuesData cs =
     (case listForRepo e (list_request e page) of
        Inl err \<Rightarrow> Some (Inl err, cs @ [ListForRepo (list_request e page)])
      | Inr data \<Rightarrow>
          (if data \<noteq> []
           then fetch_loop e (page + 1) (issuesData @ data)
                  (cs @ [ListForRepo (list_request e page)])
           else Some (Inr (issuesData @ data), cs @ [ListForRepo (list_request e page)])))"

subsection \<open>Extraction from the query's answer\<close>

text \<open>JavaScript truthiness and \<open>a || b\<close> on cell values.\<close>

fun truthy :: "jsval \<Rightarrow> bool" where
  "truthy (JNum n) = (n \<noteq> 0)"
| "truthy (JStr s) = (s \<noteq> [])"
| "truthy JUndefined = False"
| "truthy JNull = False"

definition js_or :: "jsval \<Rightarrow> jsval \<Rightarrow> jsval" where
  "js_or a b = (if truthy a then a else b)"

text \<open>
  \<open>response.node.projectItems?.nodes?.[0]\<close>: the read of \<open>projectItems\<close> on a missing
  \<open>node\<close> throws, every later step is guarded by \<open>?.\<close>.
\<close>

definition first_item :: "response \<Rightarrow> error + project_item option" where
  "first_item r =
     (case node r of
        None \<Rightarrow> Inl TypeError
      | Some n \<Rightarrow>
          Inr (case projectItems n of
                 None \<Rightarrow> None
               | Some pis \<Rightarrow>
                   (case nodes pis of
                      None \<Rightarrow> None
                    | Some xs \<Rightarrow> (case xs of [] \<Rightarrow> None | x # _ \<Rightarrow> x))))"

text \<open>\<open>item?.field?.number\<close> and \<open>item?.field?.name\<close>, before the default is applied.\<close>

definition number_of :: "(project_item \<Rightarrow> field_value option) \<Rightarrow> project_item option \<Rightarrow> jsval" where
  "number_of field it =
     (case it of
        None \<Rightarrow> JUndefined
      | Some i \<Rightarrow>
          (case field i of
             None \<Rightarrow> JUndefined
           | Some fv \<Rightarrow> (case fv_number fv of None \<Rightarrow> JUndefined | Some n \<Rightarrow> JNum n)))"

definition name_of :: "(project_item \<Rightarrow> field_value option) \<Rightarrow> project_item option \<Rightarrow> jsval" where
  "name_of field it =
     (case it of
        None \<Rightarrow> JUndefined
      | Some i \<Rightarrow>
          (case field i of
             None \<Rightarrow> JUndefined
           | Some fv \<Rightarrow> (case fv_name fv of None \<Rightarrow> JUndefined | Some s \<Rightarrow> JStr s)))"

text \<open>
  The pair (status, story points) a response gives. The compiled file extracts story points
  only, with the default \<open>"N/A"\<close>, and has no status (the pair carries \<open>JUndefined\<close>
  there, which the row of that file does not use); the TypeScript text extracts both with
  the empty string as the default.
\<close>

fun extract_fields :: "variant \<Rightarrow> response \<Rightarrow> error + (jsval \<times> jsval)" where
  "extract_fields Importer_js r =
     (case first_item r of
        Inl err \<Rightarrow> Inl err
      | Inr it \<Rightarrow> Inr (JUndefined, js_or (number_of fieldValueByName it) (JStr ''N/A'')))"
| "extract_fields Importer_ts r =
     (case first_item r of
        Inl err \<Rightarrow> Inl err
      | Inr it \<Rightarrow>
          Inr (js_or (name_of status it) (JStr []),
               js_or (number_of storyPoints it) (JStr [])))"

fun query_of :: "variant \<Rightarrow> query" where
  "query_of Importer_js = GetStoryPoints"
| "query_of Importer_ts = GetStatusAndStoryPoints"

subsection \<open>Forming the rows\<close>

text \<open>\<open>Array.prototype.join\<close> on strings.\<close>

fun join :: "string \<Rightarrow> string list \<Rightarrow> string" where
  "join sep [] = []"
| "join sep [x] = x"
| "join sep (x # y # ys) = x @ sep @ join sep (y # ys)"

definition milestone_title :: "issue \<Rightarrow> jsval" where
  "milestone_title v = (case milestone v of None \<Rightarrow> JUndefined | Some m \<Rightarrow> JStr (ms_title m))"

definition milestone_state :: "issue \<Rightarrow> jsval" where
  "milestone_state v = (case milestone v of None \<Rightarrow> JUndefined | Some m \<Rightarrow> JStr (ms_state m))"

definition milestone_due_on :: "issue \<Rightarrow> jsval" where
  "milestone_due_on v =
     (case milestone v of
        None \<Rightarrow> JUndefined
      | Some m \<Rightarrow> (case ms_due_on m of None \<Rightarrow> JNull | Some d \<Rightarrow> JStr d))"

text \<open>The array pushed for an issue; the ninth element is where the two files differ.\<close>

fun sheet_row :: "variant \<Rightarrow> issue \<Rightarrow> jsval \<Rightarrow> jsval \<Rightarrow> row" where
  "sheet_row Importer_js v st sp =
     [JNum (of_int (number v)), JStr (state v), JStr ''Issue'', JStr (title v),
      JStr (html_url v), JStr (join '', '' (map name (labels v))),
      JStr (join '', '' (map login (assignees v))), milestone_title v,
      milestone_state v, sp, milestone_due_on v]"
| "sheet_row Importer_ts v st sp =
     [JNum (of_int (number v)), JStr (state v), JStr ''Issue'', JStr (title v),
      JStr (html_url v), JStr (join '', '' (map name (labels v))),
      JStr (join '', '' (map login (assignees v))), milestone_title v,
      st, sp, milestone_due_on v]"

text \<open>
  The \<open>for ... of issuesData\<close> loop: the query and the extraction come first, for every
  element; the pull-request test comes after them and skips the push.
\<close>

fun form_rows ::
  "variant \<Rightarrow> env \<Rightarrow> issue list \<Rightarrow> row list \<Rightarrow> call list \<Rightarrow> (error + row list) \<times> call list"
where
  "form_rows var e [] issueSheetsData cs = (Inr issueSheetsData, cs)"
| "form_rows var e (v # rest) issueSheetsData cs =
     (case graphql e (query_of var) (node_id v) of
        Inl err \<Rightarrow> (Inl err, cs @ [Graphql (query_of var) (node_id v)])
      | Inr r \<Rightarrow>
          (case extract_fields var r of
             Inl err \<Rightarrow> (Inl err, cs @ [Graphql (query_of var) (node_id v)])
           | Inr (st, sp) \<Rightarrow>
               (if pull_request v \<noteq> None
                then form_rows var e rest issueSheetsData
                       (cs @ [Graphql (query_of var) (node_id v)])
                else form_rows var e rest (issueSheetsData @ [sheet_row var v st sp])
                       (cs @ [Graphql (query_of var) (node_id v)]))))"

subsection \<open>Writing the sheet\<close>

fun header :: "variant \<Rightarrow> row" where
  "header Importer_js =
     [JStr ''#'', JStr ''Status'', JStr ''Type'', JStr ''Title'', JStr ''URI'',
      JStr ''Labels'', JStr ''Assignees'', JStr ''Milestone'', JStr ''Status'',
      JStr ''Story Points'', JStr ''Deadline'']"
| "header Importer_ts =
     [JStr ''#'', JStr ''Issue Status'', JStr ''Type'', JStr ''Title'', JStr ''URI'',
      JStr ''Labels'', JStr ''Assignees'', JStr ''Milestone'', JStr ''Task Status'',
      JStr ''Story Points'', JStr ''Deadline'']"

definition clear_request :: "env \<Rightarrow> clear_params" where
  "clear_request e =
     \<lparr>cl_spreadsheetId = input_document_id e, cl_range = input_sheet_name e\<rparr>"

definition append_request :: "env \<Rightarrow> row list \<Rightarrow> append_params" where
  "append_request e vs =
     \<lparr>ap_spreadsheetId = input_document_id e,
      ap_range = input_sheet_name e @ ''!A1:1'',
      ap_valueInputOption = ''USER_ENTERED'',
      ap_majorDimension = ''ROWS'',
      ap_body_range = input_sheet_name e @ ''!A1:1'',
      ap_values = vs\<rparr>"

definition do_clear :: "env \<Rightarrow> world \<Rightarrow> (error + unit) \<times> world" where
  "do_clear e w =
     (case sheets_clear e (clear_request e) of
        Some err \<Rightarrow> (Inl err, w\<lparr>calls := calls w @ [Clear (clear_request e)]\<rparr>)
      | None \<Rightarrow> (Inr (), \<lparr>calls = calls w @ [Clear (clear_request e)], sheet = []\<rparr>))"

definition do_append :: "env \<Rightarrow> row list \<Rightarrow> world \<Rightarrow> (error + unit) \<times> world" where
  "do_append e vs w =
     (case sheets_append e (append_request e vs) of
        Some err \<Rightarrow> (Inl err, w\<lparr>calls := calls w @ [Append (append_request e vs)]\<rparr>)
      | None \<Rightarrow>
          (Inr (), \<lparr>calls = calls w @ [Append (append_request e vs)], sheet = sheet w @ vs\<rparr>))"

subsection \<open>The whole of \<open>start\<close>\<close>

text \<open>
  What follows the fetch loop, in the order of the text: parse the credentials, clear the
  tab, form the rows, append the header, append the rows. Each step ends the block at its
  first error.
\<close>

definition after_fetch :: "variant \<Rightarrow> env \<Rightarrow> issue list \<Rightarrow> world \<Rightarrow> (error + unit) \<times> world" where
  "after_fetch var e issuesData w =
     (case JSON_parse e (input_credentials e) of
        Some err \<Rightarrow> (Inl err, w)
      | None \<Rightarrow>
          (case do_clear e w of
             (Inl err, w1) \<Rightarrow> (Inl err, w1)
           | (Inr _, w1) \<Rightarrow>
               (case form_rows var e issuesData [] (calls w1) of
                  (Inl err, cs) \<Rightarrow> (Inl err, w1\<lparr>calls := cs\<rparr>)
                | (Inr issueSheetsData, cs) \<Rightarrow>
                    (case do_append e [header var] (w1\<lparr>calls := cs\<rparr>) of
                       (Inl err, w2) \<Rightarrow> (Inl err, w2)
                     | (Inr _, w2) \<Rightarrow> do_append e issueSheetsData w2))))"

text \<open>The \<open>try\<close> block.\<close>

definition start_body :: "variant \<Rightarrow> env \<Rightarrow> world \<Rightarrow> ((error + unit) \<times> world) option" where
  "start_body var e w =
     (case check_inputs e of
        Inl err \<Rightarrow> Some (Inl err, w)
      | Inr _ \<Rightarrow>
          (case new_Octokit e of
             Some err \<Rightarrow> Some (Inl err, w)
           | None \<Rightarrow>
               (case fetch_loop e 1 [] (calls w) of
                  None \<Rightarrow> None
                | Some (Inl err, cs) \<Rightarrow> Some (Inl err, w\<lparr>calls := cs\<rparr>)
                | Some (Inr issuesData, cs) \<Rightarrow>
                    Some (after_fetch var e issuesData (w\<lparr>calls := cs\<rparr>)))))"

text \<open>
  The \<open>catch\<close> clause: \<open>Core.setFailed(error)\<close>. The function belongs to the
  package \<^verbatim>\<open>@actions/core\<close>: it sets the exit code of the process to failure, then prints
  the value it was given, an \<open>Error\<close> through its \<open>toString\<close> and any other value
  through \<open>JSON.stringify\<close>. The result is \<open>Some e\<close> when the printing throws
  \<open>e\<close>, which nothing catches.
\<close>

definition setFailed :: "error \<Rightarrow> error option" where
  "setFailed err = (case err of Unprintable \<Rightarrow> Some TypeError | _ \<Rightarrow> None)"

text \<open>
  How the promise of \<open>start\<close> settles, what \<open>Core.setFailed\<close> was given (if it was
  called), and the world left behind. An error of the block goes to the \<open>catch\<close>
  clause; the promise rejects only when the clause itself throws.
\<close>

datatype settled = Resolves | Rejects error

record run =
  settled :: settled
  failed :: "error option"
  final :: world

definition start :: "variant \<Rightarrow> env \<Rightarrow> world \<Rightarrow> run option" where
  "start var e w =
     (case start_body var e w of
        None \<Rightarrow> None
      | Some (Inl err, w') \<Rightarrow>
          (case setFailed err of
             None \<Rightarrow> Some \<lparr>settled = Resolves, failed = Some err, final = w'\<rparr>
           | Some err' \<Rightarrow> Some \<lparr>settled = Rejects err', failed = Some err, final = w'\<rparr>)
      | Some (Inr _, w') \<Rightarrow> Some \<lparr>settled = Resolves, failed = None, final = w'\<rparr>)"

declare fetch_loop.simps [code]

section \<open>Notions used to state the properties\<close>

text \<open>
  The row one pass of the loop body computes for an issue: the answer to its query, the
  extraction, the array. (The loop pushes it only when the issue is not a pull request.)
\<close>

definition row_of :: "variant \<Rightarrow> env \<Rightarrow> issue \<Rightarrow> error + row" where
  "row_of var e v =
     (case graphql e (query_of var) (node_id v) of
        Inl err \<Rightarrow> Inl err
      | Inr r \<Rightarrow>
          (case extract_fields var r of
             Inl err \<Rightarrow> Inl err
           | Inr (st, sp) \<Rightarrow> Inr (sheet_row var v st sp)))"

fun is_query :: "call \<Rightarrow> bool" where
  "is_query (Graphql q i) = True"
| "is_query c = False"

subsection \<open>Concrete runs\<close>

definition issue1 :: issue where
  "issue1 =
     \<lparr>number = 1, state = ''open'', title = ''A'', html_url = ''https://h/1'',
      labels = [\<lparr>name = ''bug''\<rparr>, \<lparr>name = ''ui''\<rparr>],
      assignees = [\<lparr>login = ''alice''\<rparr>],
      milestone = Some \<lparr>ms_title = ''v1'', ms_state = ''closed'', ms_due_on = None\<rparr>,
      node_id = ''I_1'', pull_request = None\<rparr>"

definition issue2 :: issue where
  "issue2 =
     \<lparr>number = 2, state = ''closed'', title = ''B'', html_url = ''https://h/2'',
      labels = [], assignees = [], milestone = None,
      node_id = ''PR_2'', pull_request = Some ''https://h/pull/2''\<rparr>"

definition board_answer :: response where
  "board_answer =
     \<lparr>node = Some \<lparr>projectItems = Some \<lparr>nodes = Some
        [Some \<lparr>fieldValueByName = Some \<lparr>fv_name = None, fv_number = Some 3\<rparr>,
               status = Some \<lparr>fv_name = Some ''Todo'', fv_number = None\<rparr>,
               storyPoints = Some \<lparr>fv_name = None, fv_number = Some 3\<rparr>\<rparr>]\<rparr>\<rparr>\<rparr>"

definition zero_answer :: response where
  "zero_answer =
     \<lparr>node = Some \<lparr>projectItems = Some \<lparr>nodes = Some
        [Some \<lparr>fieldValueByName = Some \<lparr>fv_name = None, fv_number = Some 0\<rparr>,
               status = Some \<lparr>fv_name = Some ''Todo'', fv_number = None\<rparr>,
               storyPoints = Some \<lparr>fv_name = None, fv_number = Some 0\<rparr>\<rparr>]\<rparr>\<rparr>\<rparr>"

definition bare_answer :: response where
  "bare_answer = \<lparr>node = Some \<lparr>projectItems = None\<rparr>\<rparr>"

text \<open>One page with an issue and a pull request, then an empty page; every call succeeds.\<close>

definition demo_env :: env where
  "demo_env =
     \<lparr>input_credentials = ''{}'', input_document_id = ''doc'', input_sheet_name = ''Tab'',
      context_owner = ''o'', context_repo = ''r'', new_Octokit = None,
      listForRepo = (\<lambda>p. if lp_page p = 1 then Inr [issue1, issue2] else Inr []),
      graphql = (\<lambda>q i. if i = ''I_1'' then Inr board_answer else Inr bare_answer),
      JSON_parse = (\<lambda>s. None), sheets_clear = (\<lambda>p. None), sheets_append = (\<lambda>p. None)\<rparr>"

text \<open>The same, with no project item for any issue.\<close>

definition bare_env :: env where
  "bare_env = demo_env\<lparr>graphql := (\<lambda>q i. Inr bare_answer)\<rparr>"

text \<open>The same, with a metadata query that fails.\<close>

definition broken_env :: env where
  "broken_env = demo_env\<lparr>graphql := (\<lambda>q i. Inl (External ''rate limit''))\<rparr>"

text \<open>The same, with a listing that never returns an empty page.\<close>

definition endless_env :: env where
  "endless_env = demo_env\<lparr>listForRepo := (\<lambda>p. Inr [issue1])\<rparr>"

text \<open>The same, with no sheet name.\<close>

definition unnamed_env :: env where
  "unnamed_env = demo_env\<lparr>input_sheet_name := []\<rparr>"

text \<open>The same, with a metadata query that throws a value which cannot be printed.\<close>

definition hostile_env :: env where
  "hostile_env = demo_env\<lparr>graphql := (\<lambda>q i. Inl Unprintable)\<rparr>"

definition old_world :: world where
  "old_world = \<lparr>calls = [], sheet = [[JStr ''old'']]\<rparr>"

section \<open>Lemmas about the loops\<close>

subsection \<open>The fetch loop\<close>

text \<open>Non-empty pages from \<open>p\<close> on, then an empty one: the loop returns their concatenation.\<close>

lemma fetch_loop_pages:
  assumes "\<forall>k < length pages.
             listForRepo e (list_request e (p + k)) = Inr (pages ! k) \<and> pages ! k \<noteq> []"
      and "listForRepo e (list_request e (p + length pages)) = Inr []"
  shows "fetch_loop e p acc cs =
           Some (Inr (acc @ concat pages),
                 cs @ map (\<lambda>k. ListForRepo (list_request e k)) [p ..< p + length pages + 1])"
  using assms
proof (induction pages arbitrary: p acc cs)
  case Nil
  then show ?case by (subst fetch_loop.simps) simp
next
  case (Cons d ds)
  from Cons.prems(1) have here: "listForRepo e (list_request e p) = Inr d" "d \<noteq> []"
    by force+
  have later: "\<forall>k < length ds.
                 listForRepo e (list_request e (Suc p + k)) = Inr (ds ! k) \<and> ds ! k \<noteq> []"
  proof (intro allI impI)
    fix k assume "k < length ds"
    then have "Suc k < length (d # ds)" by simp
    from Cons.prems(1)[rule_format, OF this]
    show "listForRepo e (list_request e (Suc p + k)) = Inr (ds ! k) \<and> ds ! k \<noteq> []"
      by simp
  qed
  have last: "listForRepo e (list_request e (Suc p + length ds)) = Inr []"
    using Cons.prems(2) by simp
  have "fetch_loop e p acc cs =
          fetch_loop e (Suc p) (acc @ d) (cs @ [ListForRepo (list_request e p)])"
    by (subst fetch_loop.simps) (simp add: here)
  also have "\<dots> = Some (Inr ((acc @ d) @ concat ds),
                 (cs @ [ListForRepo (list_request e p)]) @
                 map (\<lambda>k. ListForRepo (list_request e k)) [Suc p ..< Suc p + length ds + 1])"
    by (rule Cons.IH[OF later last])
  also have "[p ..< p + length (d # ds) + 1] = p # [Suc p ..< Suc p + length ds + 1]"
    by (subst upt_rec) simp
  then have "(cs @ [ListForRepo (list_request e p)]) @
               map (\<lambda>k. ListForRepo (list_request e k)) [Suc p ..< Suc p + length ds + 1]
             = cs @ map (\<lambda>k. ListForRepo (list_request e k)) [p ..< p + length (d # ds) + 1]"
    by simp
  finally show ?case by simp
qed


text \<open>Whatever the loop returns, the calls it made are list requests for consecutive pages.\<close>

lemma fetch_loop_calls:
  assumes "fetch_loop e p acc cs = Some y"
  shows "\<exists>n. snd y = cs @ map (\<lambda>k. ListForRepo (list_request e k)) [p ..< p + n + 1]"
proof (rule fetch_loop.raw_induct
    [where P = "\<lambda>e p acc cs y.
       \<exists>n. snd y = cs @ map (\<lambda>k. ListForRepo (list_request e k)) [p ..< p + n + 1]",
     OF _ assms])
  fix loop :: "env \<Rightarrow> nat \<Rightarrow> issue list \<Rightarrow> call list \<Rightarrow> ((error + issue list) \<times> call list) option"
  fix e p acc cs y
  assume IH: "\<And>e p acc cs y. loop e p acc cs = Some y \<Longrightarrow>
      \<exists>n. snd y = cs @ map (\<lambda>k. ListForRepo (list_request e k)) [p ..< p + n + 1]"
  assume body: "(case listForRepo e (list_request e p) of
        Inl err \<Rightarrow> Some (Inl err, cs @ [ListForRepo (list_request e p)])
      | Inr data \<Rightarrow>
          (if data \<noteq> []
           then loop e (p + 1) (acc @ data) (cs @ [ListForRepo (list_request e p)])
           else Some (Inr (acc @ data), cs @ [ListForRepo (list_request e p)]))) = Some y"
  show "\<exists>n. snd y = cs @ map (\<lambda>k. ListForRepo (list_request e k)) [p ..< p + n + 1]"
  proof (cases "listForRepo e (list_request e p)")
    case (Inl err)
    with body have "snd y = cs @ map (\<lambda>k. ListForRepo (list_request e k)) [p ..< p + 0 + 1]"
      by auto
    then show ?thesis by blast
  next
    case (Inr d)
    show ?thesis
    proof (cases "d = []")
      case True
      with Inr body
      have "snd y = cs @ map (\<lambda>k. ListForRepo (list_request e k)) [p ..< p + 0 + 1]"
        by auto
      then show ?thesis by blast
    next
      case False
      with Inr body
      have "loop e (p + 1) (acc @ d) (cs @ [ListForRepo (list_request e p)]) = Some y"
        by simp
      from IH[OF this] obtain n where
        "snd y = (cs @ [ListForRepo (list_request e p)]) @
                 map (\<lambda>k. ListForRepo (list_request e k)) [p + 1 ..< p + 1 + n + 1]"
        by blast
      moreover have "[p ..< p + Suc n + 1] = p # [p + 1 ..< p + 1 + n + 1]"
        by (subst upt_rec) simp
      ultimately
      have "snd y = cs @ map (\<lambda>k. ListForRepo (list_request e k)) [p ..< p + Suc n + 1]"
        by simp
      then show ?thesis by blast
    qed
  qed
qed

text \<open>A listing with no empty page and no failure: the loop does not return.\<close>

lemma fetch_loop_never:
  assumes all: "\<forall>p. \<exists>d. listForRepo e (list_request e p) = Inr d \<and> d \<noteq> []"
  shows "fetch_loop e p acc cs = None"
proof (rule ccontr)
  assume "fetch_loop e p acc cs \<noteq> None"
  then obtain y where run: "fetch_loop e p acc cs = Some y" by blast
  have "\<not> (\<forall>p. \<exists>d. listForRepo e (list_request e p) = Inr d \<and> d \<noteq> [])"
  proof (rule fetch_loop.raw_induct
      [where P = "\<lambda>e p acc cs y.
         \<not> (\<forall>p. \<exists>d. listForRepo e (list_request e p) = Inr d \<and> d \<noteq> [])",
       OF _ run])
    fix loop :: "env \<Rightarrow> nat \<Rightarrow> issue list \<Rightarrow> call list \<Rightarrow> ((error + issue list) \<times> call list) option"
    fix e p acc cs y
    assume IH: "\<And>e p acc cs y. loop e p acc cs = Some y \<Longrightarrow>
        \<not> (\<forall>p. \<exists>d. listForRepo e (list_request e p) = Inr d \<and> d \<noteq> [])"
    assume body: "(case listForRepo e (list_request e p) of
          Inl err \<Rightarrow> Some (Inl err, cs @ [ListForRepo (list_request e p)])
        | Inr data \<Rightarrow>
            (if data \<noteq> []
             then loop e (p + 1) (acc @ data) (cs @ [ListForRepo (list_request e p)])
             else Some (Inr (acc @ data), cs @ [ListForRepo (list_request e p)]))) = Some y"
    show "\<not> (\<forall>p. \<exists>d. listForRepo e (list_request e p) = Inr d \<and> d \<noteq> [])"
    proof
      assume endless: "\<forall>p. \<exists>d. listForRepo e (list_request e p) = Inr d \<and> d \<noteq> []"
      then obtain d where d: "listForRepo e (list_request e p) = Inr d" "d \<noteq> []" by blast
      with body
      have "loop e (p + 1) (acc @ d) (cs @ [ListForRepo (list_request e p)]) = Some y"
        by simp
      from IH[OF this] endless show False by blast
    qed
  qed
  with all show False by blast
qed



subsection \<open>The row loop\<close>

text \<open>
  When the loop completes it has queried every element, in order, and pushed the row of
  each element that is not a pull request, in order.
\<close>

lemma form_rows_acc:
  "form_rows var e vs acc cs = (Inr rows, cs') \<Longrightarrow>
     \<exists>rows'. rows = acc @ rows' \<and>
       list_all2 (\<lambda>v row. row_of var e v = Inr row)
         (filter (\<lambda>v. pull_request v = None) vs) rows' \<and>
       cs' = cs @ map (\<lambda>v. Graphql (query_of var) (node_id v)) vs"
proof (induction vs arbitrary: acc cs)
  case Nil
  then show ?case by simp
next
  case (Cons v rest)
  show ?case
  proof (cases "graphql e (query_of var) (node_id v)")
    case (Inl err)
    with Cons.prems show ?thesis by simp
  next
    case (Inr r)
    show ?thesis
    proof (cases "extract_fields var r")
      case (Inl err)
      with Inr Cons.prems show ?thesis by simp
    next
      case ex: (Inr pair)
      obtain st sp where pair: "pair = (st, sp)" by (cases pair)
      show ?thesis
      proof (cases "pull_request v = None")
        case True
        with Inr ex pair Cons.prems
        have "form_rows var e rest (acc @ [sheet_row var v st sp])
                (cs @ [Graphql (query_of var) (node_id v)]) = (Inr rows, cs')"
          by simp
        from Cons.IH[OF this] obtain rows' where
          "rows = (acc @ [sheet_row var v st sp]) @ rows'"
          "list_all2 (\<lambda>v row. row_of var e v = Inr row)
             (filter (\<lambda>v. pull_request v = None) rest) rows'"
          "cs' = (cs @ [Graphql (query_of var) (node_id v)]) @
                 map (\<lambda>v. Graphql (query_of var) (node_id v)) rest"
          by blast
        moreover have "row_of var e v = Inr (sheet_row var v st sp)"
          using Inr ex pair by (simp add: row_of_def)
        ultimately show ?thesis using True by simp
      next
        case False
        with Inr ex pair Cons.prems
        have "form_rows var e rest acc (cs @ [Graphql (query_of var) (node_id v)])
                = (Inr rows, cs')"
          by simp
        from Cons.IH[OF this] show ?thesis using False by auto
      qed
    qed
  qed
qed




subsection \<open>A run that reports no failure\<close>

lemma start_success:
  assumes "start var e w = Some r" and "failed r = None"
  shows "\<exists>issuesData cs rows cs'.
           fetch_loop e 1 [] (calls w) = Some (Inr issuesData, cs) \<and>
           form_rows var e issuesData [] (cs @ [Clear (clear_request e)]) = (Inr rows, cs') \<and>
           final r = \<lparr>calls = cs' @ [Append (append_request e [header var]),
                                     Append (append_request e rows)],
                      sheet = header var # rows\<rparr>"
  using assms
  by (auto simp: start_def start_body_def after_fetch_def do_clear_def do_append_def
      split: option.splits sum.splits prod.splits if_splits)

text \<open>The fetch loop on \<open>demo_env\<close>.\<close>

lemma demo_fetch:
  "fetch_loop demo_env 1 [] [] =
     Some (Inr [issue1, issue2],
           [ListForRepo (list_request demo_env 1), ListForRepo (list_request demo_env 2)])"
  by code_simp

subsection \<open>Concrete runs, evaluated\<close>

lemma demo_run_ts:
  "start Importer_ts demo_env old_world =
     Some \<lparr>settled = Resolves, failed = None,
           final = \<lparr>calls =
             [ListForRepo (list_request demo_env 1), ListForRepo (list_request demo_env 2),
              Clear (clear_request demo_env),
              Graphql GetStatusAndStoryPoints ''I_1'', Graphql GetStatusAndStoryPoints ''PR_2'',
              Append (append_request demo_env [header Importer_ts]),
              Append (append_request demo_env
                [[JNum 1, JStr ''open'', JStr ''Issue'', JStr ''A'', JStr ''https://h/1'',
                  JStr ''bug, ui'', JStr ''alice'', JStr ''v1'', JStr ''Todo'', JNum 3,
                  JNull]])],
             sheet =
               [header Importer_ts,
                [JNum 1, JStr ''open'', JStr ''Issue'', JStr ''A'', JStr ''https://h/1'',
                 JStr ''bug, ui'', JStr ''alice'', JStr ''v1'', JStr ''Todo'', JNum 3,
                 JNull]]\<rparr>\<rparr>"
  by code_simp

lemma demo_run_js:
  "start Importer_js demo_env old_world =
     Some \<lparr>settled = Resolves, failed = None,
           final = \<lparr>calls =
             [ListForRepo (list_request demo_env 1), ListForRepo (list_request demo_env 2),
              Clear (clear_request demo_env),
              Graphql GetStoryPoints ''I_1'', Graphql GetStoryPoints ''PR_2'',
              Append (append_request demo_env [header Importer_js]),
              Append (append_request demo_env
                [[JNum 1, JStr ''open'', JStr ''Issue'', JStr ''A'', JStr ''https://h/1'',
                  JStr ''bug, ui'', JStr ''alice'', JStr ''v1'', JStr ''closed'', JNum 3,
                  JNull]])],
             sheet =
               [header Importer_js,
                [JNum 1, JStr ''open'', JStr ''Issue'', JStr ''A'', JStr ''https://h/1'',
                 JStr ''bug, ui'', JStr ''alice'', JStr ''v1'', JStr ''closed'', JNum 3,
                 JNull]]\<rparr>\<rparr>"
  by code_simp

lemma broken_run_ts:
  "start Importer_ts broken_env old_world =
     Some \<lparr>settled = Resolves, failed = Some (External ''rate limit''),
           final = \<lparr>calls =
             [ListForRepo (list_request broken_env 1), ListForRepo (list_request broken_env 2),
              Clear (clear_request broken_env),
              Graphql GetStatusAndStoryPoints ''I_1''],
             sheet = []\<rparr>\<rparr>"
  by code_simp

lemma bare_run_js:
  "start Importer_js bare_env old_world =
     Some \<lparr>settled = Resolves, failed = None,
           final = \<lparr>calls =
             [ListForRepo (list_request bare_env 1), ListForRepo (list_request bare_env 2),
              Clear (clear_request bare_env),
              Graphql GetStoryPoints ''I_1'', Graphql GetStoryPoints ''PR_2'',
              Append (append_request bare_env [header Importer_js]),
              Append (append_request bare_env
                [[JNum 1, JStr ''open'', JStr ''Issue'', JStr ''A'', JStr ''https://h/1'',
                  JStr ''bug, ui'', JStr ''alice'', JStr ''v1'', JStr ''closed'',
                  JStr ''N/A'', JNull]])],
             sheet =
               [header Importer_js,
                [JNum 1, JStr ''open'', JStr ''Issue'', JStr ''A'', JStr ''https://h/1'',
                 JStr ''bug, ui'', JStr ''alice'', JStr ''v1'', JStr ''closed'',
                 JStr ''N/A'', JNull]]\<rparr>\<rparr>"
  by code_simp

lemma hostile_run_rejects:
  "start Importer_ts hostile_env old_world =
     Some \<lparr>settled = Rejects TypeError, failed = Some Unprintable,
           final = \<lparr>calls =
             [ListForRepo (list_request hostile_env 1), ListForRepo (list_request hostile_env 2),
              Clear (clear_request hostile_env),
              Graphql GetStatusAndStoryPoints ''I_1''],
             sheet = []\<rparr>\<rparr>"
  by code_simp

subsection \<open>The shape of a run that reports no failure\<close>

lemma start_rows:
  assumes "start var e w = Some r" and "failed r = None"
      and "fetch_loop e 1 [] (calls w) = Some (Inr issuesData, cs)"
  shows "\<exists>rows. list_all2 (\<lambda>v row. row_of var e v = Inr row)
                  (filter (\<lambda>v. pull_request v = None) issuesData) rows \<and>
                sheet (final r) = header var # rows \<and>
                calls (final r) =
                  cs @ [Clear (clear_request e)] @
                  map (\<lambda>v. Graphql (query_of var) (node_id v)) issuesData @
                  [Append (append_request e [header var]), Append (append_request e rows)]"
proof -
  from start_success[OF assms(1,2)] assms(3) obtain rows cs' where
    form: "form_rows var e issuesData [] (cs @ [Clear (clear_request e)]) = (Inr rows, cs')"
    and fin: "final r = \<lparr>calls = cs' @ [Append (append_request e [header var]),
                                     Append (append_request e rows)],
                      sheet = header var # rows\<rparr>"
    by auto
  from form_rows_acc[OF form] have
    "list_all2 (\<lambda>v row. row_of var e v = Inr row)
       (filter (\<lambda>v. pull_request v = None) issuesData) rows"
    "cs' = (cs @ [Clear (clear_request e)]) @
           map (\<lambda>v. Graphql (query_of var) (node_id v)) issuesData"
    by auto
  with fin show ?thesis by simp
qed

lemma filter_is_query_lists:
  "filter is_query (map (\<lambda>k. ListForRepo (f k)) ks) = []"
  by (induction ks) simp_all

lemma filter_is_query_queries:
  "filter is_query (map (\<lambda>v. Graphql q (g v)) vs) = map (\<lambda>v. Graphql q (g v)) vs"
  by (induction vs) simp_all

lemma start_calls:
  assumes "start var e w = Some r" and "failed r = None"
      and "fetch_loop e 1 [] (calls w) = Some (Inr issuesData, cs)"
  shows "\<exists>n rows.
           fst (form_rows var e issuesData [] (cs @ [Clear (clear_request e)])) = Inr rows \<and>
           sheet (final r) = header var # rows \<and>
           calls (final r) =
             calls w @ map (\<lambda>k. ListForRepo (list_request e k)) [1 ..< n + 2] @
             [Clear (clear_request e)] @
             map (\<lambda>v. Graphql (query_of var) (node_id v)) issuesData @
             [Append (append_request e [header var]), Append (append_request e rows)]"
proof -
  from start_success[OF assms(1,2)] assms(3) obtain rows cs' where
    form: "form_rows var e issuesData [] (cs @ [Clear (clear_request e)]) = (Inr rows, cs')"
    and fin: "final r = \<lparr>calls = cs' @ [Append (append_request e [header var]),
                                     Append (append_request e rows)],
                      sheet = header var # rows\<rparr>"
    by auto
  from form_rows_acc[OF form] have
    cs': "cs' = (cs @ [Clear (clear_request e)]) @
           map (\<lambda>v. Graphql (query_of var) (node_id v)) issuesData"
    by auto
  from fetch_loop_calls[OF assms(3)] obtain n where
    cs: "cs = calls w @ map (\<lambda>k. ListForRepo (list_request e k)) [1 ..< 1 + n + 1]"
    by auto
  have "1 + n + 1 = n + 2" by simp
  with cs have "cs = calls w @ map (\<lambda>k. ListForRepo (list_request e k)) [1 ..< n + 2]"
    by (simp only:)
  with cs' fin form show ?thesis by auto
qed

lemma row_of_layout:
  assumes "row_of var e v = Inr row"
  shows "\<exists>r it.
     graphql e (query_of var) (node_id v) = Inr r \<and> first_item r = Inr it \<and>
     row =
       [JNum (of_int (number v)), JStr (state v), JStr ''Issue'', JStr (title v),
        JStr (html_url v), JStr (join '', '' (map name (labels v))),
        JStr (join '', '' (map login (assignees v))),
        (case milestone v of None \<Rightarrow> JUndefined | Some m \<Rightarrow> JStr (ms_title m)),
        (case var of
           Importer_js \<Rightarrow>
             (case milestone v of None \<Rightarrow> JUndefined | Some m \<Rightarrow> JStr (ms_state m))
         | Importer_ts \<Rightarrow> js_or (name_of status it) (JStr [])),
        (case var of
           Importer_js \<Rightarrow> js_or (number_of fieldValueByName it) (JStr ''N/A'')
         | Importer_ts \<Rightarrow> js_or (number_of storyPoints it) (JStr [])),
        (case milestone v of
           None \<Rightarrow> JUndefined
         | Some m \<Rightarrow> (case ms_due_on m of None \<Rightarrow> JNull | Some d \<Rightarrow> JStr d))]"
proof (cases var)
  case Importer_js
  with assms show ?thesis
    by (auto simp: row_of_def milestone_title_def milestone_state_def milestone_due_on_def
        split: sum.splits)
next
  case Importer_ts
  with assms show ?thesis
    by (auto simp: row_of_def milestone_title_def milestone_state_def milestone_due_on_def
        split: sum.splits)
qed

subsection \<open>The errors of the \<open>try\<close> block\<close>


section \<open>The claims\<close>

subsection \<open>C1: one row per issue that is not a pull request\<close>

text \<open>
  C1. In a run that reports no failure, the rows formed are exactly the rows of the
  fetched issues that are not pull requests, one each and in fetch order; their number is
  the number of fetched issues minus the number of pull requests; the destination tab then
  holds the header row followed by these rows, that many rows plus one.
\<close>

theorem rows_one_per_issue:
  assumes "start var e w = Some r" and "failed r = None"
      and "fetch_loop e 1 [] (calls w) = Some (Inr issuesData, cs)"
  shows "\<exists>rows.
           list_all2 (\<lambda>v row. row_of var e v = Inr row)
             (filter (\<lambda>v. pull_request v = None) issuesData) rows \<and>
           length rows =
             length issuesData - length (filter (\<lambda>v. pull_request v \<noteq> None) issuesData) \<and>
           sheet (final r) = header var # rows \<and>
           length (sheet (final r)) =
             (length issuesData - length (filter (\<lambda>v. pull_request v \<noteq> None) issuesData)) + 1"
proof -
  from start_rows[OF assms] obtain rows where
    rows: "list_all2 (\<lambda>v row. row_of var e v = Inr row)
             (filter (\<lambda>v. pull_request v = None) issuesData) rows"
    and sh: "sheet (final r) = header var # rows"
    by blast
  have "length (filter (\<lambda>v. pull_request v = None) issuesData) +
        length (filter (\<lambda>v. pull_request v \<noteq> None) issuesData) = length issuesData"
    using sum_length_filter_compl[of "\<lambda>v. pull_request v = None" issuesData] by simp
  moreover from rows have "length rows = length (filter (\<lambda>v. pull_request v = None) issuesData)"
    by (simp add: list_all2_lengthD)
  ultimately have "length rows =
      length issuesData - length (filter (\<lambda>v. pull_request v \<noteq> None) issuesData)"
    by arith
  with rows sh show ?thesis by auto
qed

text \<open>
  The run on \<open>demo_env\<close>: two fetched issues, one of them a pull request, one row,
  two rows in the tab.
\<close>

theorem rows_one_per_issue_witness:
  "\<exists>r rows. start Importer_ts demo_env old_world = Some r \<and> failed r = None \<and>
     fetch_loop demo_env 1 [] (calls old_world) =
       Some (Inr [issue1, issue2],
             [ListForRepo (list_request demo_env 1), ListForRepo (list_request demo_env 2)]) \<and>
     list_all2 (\<lambda>v row. row_of Importer_ts demo_env v = Inr row) [issue1] rows \<and>
     length rows = 1 \<and>
     sheet (final r) = header Importer_ts # rows \<and>
     length (sheet (final r)) = 2"
proof -
  obtain r where run: "start Importer_ts demo_env old_world = Some r" and ok: "failed r = None"
    by (simp add: demo_run_ts)
  have fetched: "fetch_loop demo_env 1 [] (calls old_world) =
       Some (Inr [issue1, issue2],
             [ListForRepo (list_request demo_env 1), ListForRepo (list_request demo_env 2)])"
    using demo_fetch by (simp add: old_world_def)
  have prs: "filter (\<lambda>v. pull_request v = None) [issue1, issue2] = [issue1]"
    "filter (\<lambda>v. pull_request v \<noteq> None) [issue1, issue2] = [issue2]"
    by (simp_all add: issue1_def issue2_def)
  from rows_one_per_issue[OF run ok fetched] run ok fetched show ?thesis
    unfolding prs by auto
qed

subsection \<open>C2: which issues the metadata query is made for\<close>

text \<open>
  C2, as amended. In a run that reports no failure, the metadata queries made are exactly
  one for each fetched issue, pull requests included, keyed by the issue's node
  identifier and in fetch order: the pull-request test of the loop comes after the query.
\<close>

theorem one_query_per_fetched_issue:
  assumes "start var e w = Some r" and "failed r = None"
      and "fetch_loop e 1 [] (calls w) = Some (Inr issuesData, cs)"
  shows "filter is_query (drop (length (calls w)) (calls (final r))) =
           map (\<lambda>v. Graphql (query_of var) (node_id v)) issuesData"
proof -
  from start_calls[OF assms] obtain n rows where
    "calls (final r) =
       calls w @ map (\<lambda>k. ListForRepo (list_request e k)) [1 ..< n + 2] @
       [Clear (clear_request e)] @
       map (\<lambda>v. Graphql (query_of var) (node_id v)) issuesData @
       [Append (append_request e [header var]), Append (append_request e rows)]"
    by blast
  then have "drop (length (calls w)) (calls (final r)) =
       map (\<lambda>k. ListForRepo (list_request e k)) [1 ..< n + 2] @
       [Clear (clear_request e)] @
       map (\<lambda>v. Graphql (query_of var) (node_id v)) issuesData @
       [Append (append_request e [header var]), Append (append_request e rows)]"
    by simp
  then show ?thesis
    by (simp only: filter_append filter_is_query_lists filter_is_query_queries) simp
qed

theorem one_query_per_fetched_issue_witness:
  "\<exists>r. start Importer_ts demo_env old_world = Some r \<and> failed r = None \<and>
     fetch_loop demo_env 1 [] (calls old_world) =
       Some (Inr [issue1, issue2],
             [ListForRepo (list_request demo_env 1), ListForRepo (list_request demo_env 2)]) \<and>
     filter is_query (drop (length (calls old_world)) (calls (final r))) =
       [Graphql GetStatusAndStoryPoints ''I_1'', Graphql GetStatusAndStoryPoints ''PR_2'']"
proof -
  obtain r where run: "start Importer_ts demo_env old_world = Some r" and ok: "failed r = None"
    by (simp add: demo_run_ts)
  have fetched: "fetch_loop demo_env 1 [] (calls old_world) =
       Some (Inr [issue1, issue2],
             [ListForRepo (list_request demo_env 1), ListForRepo (list_request demo_env 2)])"
    using demo_fetch by (simp add: old_world_def)
  have ids: "map (\<lambda>v. Graphql (query_of Importer_ts) (node_id v)) [issue1, issue2] =
       [Graphql GetStatusAndStoryPoints ''I_1'', Graphql GetStatusAndStoryPoints ''PR_2'']"
    by (simp add: issue1_def issue2_def)
  from one_query_per_fetched_issue[OF run ok fetched] run ok fetched show ?thesis
    unfolding ids by blast
qed

text \<open>
  C2 as stated fails: \<open>issue2\<close> is a pull request, and both files query its node
  identifier.
\<close>

theorem pull_request_is_queried:
  "pull_request issue2 \<noteq> None \<and>
   map_option (filter is_query \<circ> calls \<circ> final) (start Importer_ts demo_env old_world) =
     Some [Graphql GetStatusAndStoryPoints (node_id issue1),
           Graphql GetStatusAndStoryPoints (node_id issue2)] \<and>
   map_option (filter is_query \<circ> calls \<circ> final) (start Importer_js demo_env old_world) =
     Some [Graphql GetStoryPoints (node_id issue1),
           Graphql GetStoryPoints (node_id issue2)]"
  by (simp add: demo_run_ts demo_run_js issue1_def issue2_def)

subsection \<open>C3: the order of the steps\<close>

text \<open>
  C3, as amended. A run that reports no failure makes its calls in this order: the list
  requests for pages 1, 2, ...; the clear of the destination range; one metadata query per
  fetched issue (the row loop, which starts once the clear is done); the append of the
  header row; the append of the rows the loop formed. The rows are complete before either
  append, and not before the clear.
\<close>

theorem run_order:
  assumes "start var e w = Some r" and "failed r = None"
      and "fetch_loop e 1 [] (calls w) = Some (Inr issuesData, cs)"
  shows "\<exists>n rows.
           fst (form_rows var e issuesData [] (cs @ [Clear (clear_request e)])) = Inr rows \<and>
           calls (final r) =
             calls w @ map (\<lambda>k. ListForRepo (list_request e k)) [1 ..< n + 2] @
             [Clear (clear_request e)] @
             map (\<lambda>v. Graphql (query_of var) (node_id v)) issuesData @
             [Append (append_request e [header var]), Append (append_request e rows)]"
  using start_calls[OF assms] by blast

theorem run_order_witness:
  "\<exists>r n rows. start Importer_ts demo_env old_world = Some r \<and> failed r = None \<and>
     fetch_loop demo_env 1 [] (calls old_world) =
       Some (Inr [issue1, issue2],
             [ListForRepo (list_request demo_env 1), ListForRepo (list_request demo_env 2)]) \<and>
     calls (final r) =
       calls old_world @ map (\<lambda>k. ListForRepo (list_request demo_env k)) [1 ..< n + 2] @
       [Clear (clear_request demo_env)] @
       map (\<lambda>v. Graphql (query_of Importer_ts) (node_id v)) [issue1, issue2] @
       [Append (append_request demo_env [header Importer_ts]),
        Append (append_request demo_env rows)]"
proof -
  obtain r where run: "start Importer_ts demo_env old_world = Some r" and ok: "failed r = None"
    by (simp add: demo_run_ts)
  have fetched: "fetch_loop demo_env 1 [] (calls old_world) =
       Some (Inr [issue1, issue2],
             [ListForRepo (list_request demo_env 1), ListForRepo (list_request demo_env 2)])"
    using demo_fetch by (simp add: old_world_def)
  from run_order[OF run ok fetched] run ok fetched show ?thesis
    by blast
qed

text \<open>
  C3 as stated fails: when the first metadata query fails, the row loop never completes,
  yet the clear has been called and the old row of the tab is gone; and in the run that
  succeeds the clear precedes the queries of the row loop.
\<close>

theorem clear_precedes_rows:
  "sheet old_world = [[JStr ''old'']] \<and>
   start Importer_ts broken_env old_world =
     Some \<lparr>settled = Resolves, failed = Some (External ''rate limit''),
           final = \<lparr>calls =
             [ListForRepo (list_request broken_env 1), ListForRepo (list_request broken_env 2),
              Clear (clear_request broken_env),
              Graphql GetStatusAndStoryPoints ''I_1''],
             sheet = []\<rparr>\<rparr> \<and>
   map_option (take 4 \<circ> drop 2 \<circ> calls \<circ> final) (start Importer_ts demo_env old_world) =
     Some [Clear (clear_request demo_env),
           Graphql GetStatusAndStoryPoints ''I_1'', Graphql GetStatusAndStoryPoints ''PR_2'',
           Append (append_request demo_env [header Importer_ts])]"
proof (intro conjI)
  show "sheet old_world = [[JStr ''old'']]"
    by (simp add: old_world_def)
  show "start Importer_ts broken_env old_world =
     Some \<lparr>settled = Resolves, failed = Some (External ''rate limit''),
           final = \<lparr>calls =
             [ListForRepo (list_request broken_env 1), ListForRepo (list_request broken_env 2),
              Clear (clear_request broken_env),
              Graphql GetStatusAndStoryPoints ''I_1''],
             sheet = []\<rparr>\<rparr>"
    by (rule broken_run_ts)
  show "map_option (take 4 \<circ> drop 2 \<circ> calls \<circ> final) (start Importer_ts demo_env old_world) =
     Some [Clear (clear_request demo_env),
           Graphql GetStatusAndStoryPoints ''I_1'', Graphql GetStatusAndStoryPoints ''PR_2'',
           Append (append_request demo_env [header Importer_ts])]"
    by (simp add: demo_run_ts)
qed

subsection \<open>C4: the layout of a row\<close>

text \<open>
  C4, as amended. In a run that reports no failure, the rows beneath the header are, for
  the fetched issues that are not pull requests and in their order, the eleven cells
  number, state, "Issue", title, url, label names joined with ", ", assignee logins joined
  with ", ", milestone title (undefined without a milestone), a ninth cell, story points,
  milestone due date (undefined without a milestone, null without a date). In the
  TypeScript text the ninth cell is the project-board status of the first project item
  (default "") and story points default to ""; in the compiled file the ninth cell is the
  milestone state (undefined without a milestone) and story points default to "N/A".
\<close>

theorem row_layout:
  assumes "start var e w = Some r" and "failed r = None"
      and "fetch_loop e 1 [] (calls w) = Some (Inr issuesData, cs)"
  shows "list_all2
     (\<lambda>v row. \<exists>resp it.
        graphql e (query_of var) (node_id v) = Inr resp \<and> first_item resp = Inr it \<and>
        row =
          [JNum (of_int (number v)), JStr (state v), JStr ''Issue'', JStr (title v),
           JStr (html_url v), JStr (join '', '' (map name (labels v))),
           JStr (join '', '' (map login (assignees v))),
           (case milestone v of None \<Rightarrow> JUndefined | Some m \<Rightarrow> JStr (ms_title m)),
           (case var of
              Importer_js \<Rightarrow>
                (case milestone v of None \<Rightarrow> JUndefined | Some m \<Rightarrow> JStr (ms_state m))
            | Importer_ts \<Rightarrow> js_or (name_of status it) (JStr [])),
           (case var of
              Importer_js \<Rightarrow> js_or (number_of fieldValueByName it) (JStr ''N/A'')
            | Importer_ts \<Rightarrow> js_or (number_of storyPoints it) (JStr [])),
           (case milestone v of
              None \<Rightarrow> JUndefined
            | Some m \<Rightarrow> (case ms_due_on m of None \<Rightarrow> JNull | Some d \<Rightarrow> JStr d))])
     (filter (\<lambda>v. pull_request v = None) issuesData) (tl (sheet (final r)))"
proof -
  from start_rows[OF assms] obtain rows where
    rows: "list_all2 (\<lambda>v row. row_of var e v = Inr row)
             (filter (\<lambda>v. pull_request v = None) issuesData) rows"
    and sh: "sheet (final r) = header var # rows"
    by blast
  from sh have "tl (sheet (final r)) = rows" by simp
  with rows show ?thesis
    by (auto elim!: list_all2_mono dest: row_of_layout)
qed

theorem row_layout_witness:
  "\<exists>r. start Importer_js demo_env old_world = Some r \<and> failed r = None \<and>
     fetch_loop demo_env 1 [] (calls old_world) =
       Some (Inr [issue1, issue2],
             [ListForRepo (list_request demo_env 1), ListForRepo (list_request demo_env 2)]) \<and>
     list_all2
       (\<lambda>v row. \<exists>resp it.
          graphql demo_env GetStoryPoints (node_id v) = Inr resp \<and> first_item resp = Inr it \<and>
          row =
            [JNum (of_int (number v)), JStr (state v), JStr ''Issue'', JStr (title v),
             JStr (html_url v), JStr (join '', '' (map name (labels v))),
             JStr (join '', '' (map login (assignees v))),
             (case milestone v of None \<Rightarrow> JUndefined | Some m \<Rightarrow> JStr (ms_title m)),
             (case milestone v of None \<Rightarrow> JUndefined | Some m \<Rightarrow> JStr (ms_state m)),
             js_or (number_of fieldValueByName it) (JStr ''N/A''),
             (case milestone v of
                None \<Rightarrow> JUndefined
              | Some m \<Rightarrow> (case ms_due_on m of None \<Rightarrow> JNull | Some d \<Rightarrow> JStr d))])
       [issue1] (tl (sheet (final r)))"
proof -
  obtain r where run: "start Importer_js demo_env old_world = Some r" and ok: "failed r = None"
    by (simp add: demo_run_js)
  have fetched: "fetch_loop demo_env 1 [] (calls old_world) =
       Some (Inr [issue1, issue2],
             [ListForRepo (list_request demo_env 1), ListForRepo (list_request demo_env 2)])"
    using demo_fetch by (simp add: old_world_def)
  have prs: "filter (\<lambda>v. pull_request v = None) [issue1, issue2] = [issue1]"
    by (simp add: issue1_def issue2_def)
  have q: "query_of Importer_js = GetStoryPoints"
    by simp
  have v: "\<And>a b. (case Importer_js of Importer_js \<Rightarrow> a | Importer_ts \<Rightarrow> b) = (a::jsval)"
    by simp
  from row_layout[OF run ok fetched] run ok fetched show ?thesis
    unfolding prs q v by blast
qed

text \<open>
  C4 as stated fails on the compiled file: the answer for \<open>issue1\<close> carries the status
  "Todo", and the ninth cell of its row is "closed", the state of its milestone.
\<close>

theorem ninth_cell_is_milestone_state:
  "graphql demo_env GetStoryPoints (node_id issue1) = Inr board_answer \<and>
   map_sum id (name_of status) (first_item board_answer) = Inr (JStr ''Todo'') \<and>
   map_option (sheet \<circ> final) (start Importer_js demo_env old_world) =
     Some [header Importer_js,
           [JNum 1, JStr ''open'', JStr ''Issue'', JStr ''A'', JStr ''https://h/1'',
            JStr ''bug, ui'', JStr ''alice'', JStr ''v1'', JStr ''closed'', JNum 3, JNull]]"
proof (intro conjI)
  show "graphql demo_env GetStoryPoints (node_id issue1) = Inr board_answer"
    by (simp add: demo_env_def issue1_def)
  show "map_sum id (name_of status) (first_item board_answer) = Inr (JStr ''Todo'')"
    by (simp add: first_item_def board_answer_def name_of_def)
  show "map_option (sheet \<circ> final) (start Importer_js demo_env old_world) =
     Some [header Importer_js,
           [JNum 1, JStr ''open'', JStr ''Issue'', JStr ''A'', JStr ''https://h/1'',
            JStr ''bug, ui'', JStr ''alice'', JStr ''v1'', JStr ''closed'', JNum 3, JNull]]"
    by (simp add: demo_run_js)
qed

subsection \<open>C5: the header row\<close>

text \<open>
  C5, as amended. In a run that reports no failure the first row of the destination tab
  is the header of the file that ran: in the compiled file #, Status, Type, Title, URI,
  Labels, Assignees, Milestone, Status, Story Points, Deadline; in the TypeScript text the
  same with "Issue Status" as the second and "Task Status" as the ninth label.
\<close>

theorem header_row_first:
  assumes "start var e w = Some r" and "failed r = None"
  shows "\<exists>rows. sheet (final r) =
     (case var of
        Importer_js \<Rightarrow>
          [JStr ''#'', JStr ''Status'', JStr ''Type'', JStr ''Title'', JStr ''URI'',
           JStr ''Labels'', JStr ''Assignees'', JStr ''Milestone'', JStr ''Status'',
           JStr ''Story Points'', JStr ''Deadline'']
      | Importer_ts \<Rightarrow>
          [JStr ''#'', JStr ''Issue Status'', JStr ''Type'', JStr ''Title'', JStr ''URI'',
           JStr ''Labels'', JStr ''Assignees'', JStr ''Milestone'', JStr ''Task Status'',
           JStr ''Story Points'', JStr ''Deadline'']) # rows"
proof -
  from start_success[OF assms] obtain rows where "sheet (final r) = header var # rows"
    by auto
  then show ?thesis by (cases var) simp_all
qed

theorem header_row_first_witness:
  "\<exists>r rows. start Importer_js demo_env old_world = Some r \<and> failed r = None \<and>
     sheet (final r) =
       [JStr ''#'', JStr ''Status'', JStr ''Type'', JStr ''Title'', JStr ''URI'',
        JStr ''Labels'', JStr ''Assignees'', JStr ''Milestone'', JStr ''Status'',
        JStr ''Story Points'', JStr ''Deadline''] # rows"
proof -
  obtain r where run: "start Importer_js demo_env old_world = Some r" and ok: "failed r = None"
    by (simp add: demo_run_js)
  have v: "\<And>a b. (case Importer_js of Importer_js \<Rightarrow> a | Importer_ts \<Rightarrow> b) = (a::row)"
    by simp
  from header_row_first[OF run ok] run ok show ?thesis
    unfolding v by blast
qed

text \<open>
  C5 as stated fails on the TypeScript text: its header has no label "Status".
\<close>

theorem header_of_source_text_differs:
  "map_option (take 1 \<circ> sheet \<circ> final) (start Importer_ts demo_env old_world) =
     Some [[JStr ''#'', JStr ''Issue Status'', JStr ''Type'', JStr ''Title'', JStr ''URI'',
            JStr ''Labels'', JStr ''Assignees'', JStr ''Milestone'', JStr ''Task Status'',
            JStr ''Story Points'', JStr ''Deadline'']] \<and>
   map_option (take 1 \<circ> sheet \<circ> final) (start Importer_ts demo_env old_world) \<noteq>
     Some [[JStr ''#'', JStr ''Status'', JStr ''Type'', JStr ''Title'', JStr ''URI'',
            JStr ''Labels'', JStr ''Assignees'', JStr ''Milestone'', JStr ''Status'',
            JStr ''Story Points'', JStr ''Deadline'']]"
  by (simp add: demo_run_ts)

subsection \<open>C6: pagination\<close>

text \<open>
  C6. When the listing returns N non-empty pages for the page numbers 1 to N and an empty
  page for N + 1, the fetch loop returns the concatenation of the N pages in order, and
  the calls it made are exactly the N + 1 list requests for the pages 1, ..., N + 1, each
  with state "all".
\<close>

theorem fetch_loop_pagination:
  assumes "\<forall>k < length pages.
             listForRepo e (list_request e (Suc k)) = Inr (pages ! k) \<and> pages ! k \<noteq> []"
      and "listForRepo e (list_request e (Suc (length pages))) = Inr []"
  shows "\<exists>made.
           fetch_loop e 1 [] cs = Some (Inr (concat pages), cs @ made) \<and>
           made = map (\<lambda>k. ListForRepo \<lparr>lp_owner = context_owner e, lp_repo = context_repo e,
                                         lp_state = ''all'', lp_page = k\<rparr>)
                    [1 ..< length pages + 2] \<and>
           length made = length pages + 1"
proof -
  let ?made = "map (\<lambda>k. ListForRepo \<lparr>lp_owner = context_owner e, lp_repo = context_repo e,
                                        lp_state = ''all'', lp_page = k\<rparr>)
                 [1 ..< length pages + 2]"
  have "fetch_loop e 1 [] cs =
          Some (Inr ([] @ concat pages),
                cs @ map (\<lambda>k. ListForRepo (list_request e k)) [1 ..< 1 + length pages + 1])"
    by (rule fetch_loop_pages) (use assms in simp_all)
  moreover have "1 + length pages + 1 = length pages + 2"
    by simp
  ultimately have run: "fetch_loop e 1 [] cs = Some (Inr (concat pages), cs @ ?made)"
    by (simp only: list_request_def append_Nil)
  have len: "length ?made = length pages + 1"
    by (simp only: length_map length_upt)
  show ?thesis
  proof (intro exI conjI)
    show "fetch_loop e 1 [] cs = Some (Inr (concat pages), cs @ ?made)" by (rule run)
    show "?made = ?made" by (rule refl)
    show "length ?made = length pages + 1" by (rule len)
  qed
qed

theorem fetch_loop_pagination_witness:
  "\<exists>made.
     fetch_loop demo_env 1 [] [] = Some (Inr [issue1, issue2], made) \<and>
     made = [ListForRepo \<lparr>lp_owner = ''o'', lp_repo = ''r'', lp_state = ''all'', lp_page = 1\<rparr>,
             ListForRepo \<lparr>lp_owner = ''o'', lp_repo = ''r'', lp_state = ''all'', lp_page = 2\<rparr>] \<and>
     length made = 2"
proof -
  have a: "\<forall>k < length [[issue1, issue2]].
             listForRepo demo_env (list_request demo_env (Suc k)) = Inr ([[issue1, issue2]] ! k) \<and>
             [[issue1, issue2]] ! k \<noteq> []"
    by (simp add: demo_env_def list_request_def)
  have b: "listForRepo demo_env (list_request demo_env (Suc (length [[issue1, issue2]]))) = Inr []"
    by (simp add: demo_env_def list_request_def)
  have c: "[1 ..< length [[issue1, issue2]] + 2] = [1, 2]"
    by code_simp
  from fetch_loop_pagination[OF a b, of "[]"] show ?thesis
    unfolding c by (simp add: demo_env_def)
qed

subsection \<open>C7: a missing input\<close>

text \<open>
  C7. If one of the three inputs is empty, the run ends with the failure
  \<open>MissingInput\<close> and the world is untouched: no call has been made.
\<close>

theorem missing_input_fails_first:
  assumes "input_credentials e = [] \<or> input_document_id e = [] \<or> input_sheet_name e = []"
  shows "start var e w = Some \<lparr>settled = Resolves, failed = Some MissingInput, final = w\<rparr>"
  using assms by (simp add: start_def start_body_def check_inputs_def setFailed_def)

theorem missing_input_fails_first_witness:
  "input_sheet_name unnamed_env = [] \<and>
   start Importer_ts unnamed_env old_world =
     Some \<lparr>settled = Resolves, failed = Some MissingInput, final = old_world\<rparr> \<and>
   calls old_world = []"
proof -
  have a: "input_sheet_name unnamed_env = []"
    by (simp add: unnamed_env_def)
  then have "input_credentials unnamed_env = [] \<or> input_document_id unnamed_env = [] \<or>
             input_sheet_name unnamed_env = []"
    by simp
  from missing_input_fails_first[OF this] a show ?thesis
    by (simp add: old_world_def)
qed

subsection \<open>C8: an issue with no project item\<close>

text \<open>
  C8, as amended. When the answer to an issue's query has a node whose \<open>projectItems\<close>
  is missing, or whose \<open>nodes\<close> is missing or empty, the extraction does not throw and
  finds no item; the story-point cell of the row is the default of the file that ran, ""
  in the TypeScript text and "N/A" in the compiled file; the ninth cell is "" in the
  TypeScript text, and in the compiled file it is the milestone state, which the answer
  does not influence.
\<close>

theorem no_project_item_gives_defaults:
  assumes "graphql e (query_of var) (node_id v) = Inr r"
      and "node r = Some n"
      and "projectItems n = None \<or>
           (\<exists>pis. projectItems n = Some pis \<and> (nodes pis = None \<or> nodes pis = Some []))"
  shows "first_item r = Inr None \<and>
         extract_fields var r =
           Inr (case var of
                  Importer_js \<Rightarrow> (JUndefined, JStr ''N/A'')
                | Importer_ts \<Rightarrow> (JStr [], JStr [])) \<and>
         (\<exists>row. row_of var e v = Inr row \<and>
            row ! 8 = (case var of Importer_js \<Rightarrow> milestone_state v | Importer_ts \<Rightarrow> JStr []) \<and>
            row ! 9 = (case var of Importer_js \<Rightarrow> JStr ''N/A'' | Importer_ts \<Rightarrow> JStr []))"
proof -
  from assms(2,3) have none: "first_item r = Inr None"
    by (auto simp: first_item_def)
  then show ?thesis using assms(1)
    by (cases var) (simp_all add: row_of_def js_or_def number_of_def name_of_def)
qed

theorem no_project_item_gives_defaults_witness:
  "graphql bare_env GetStatusAndStoryPoints (node_id issue1) = Inr bare_answer \<and>
   node bare_answer = Some \<lparr>projectItems = None\<rparr> \<and>
   first_item bare_answer = Inr None \<and>
   extract_fields Importer_ts bare_answer = Inr (JStr [], JStr []) \<and>
   (\<exists>row. row_of Importer_ts bare_env issue1 = Inr row \<and> row ! 8 = JStr [] \<and> row ! 9 = JStr [])"
proof -
  have a: "graphql bare_env (query_of Importer_ts) (node_id issue1) = Inr bare_answer"
    by (simp add: bare_env_def)
  have b: "node bare_answer = Some \<lparr>projectItems = None\<rparr>"
    by (simp add: bare_answer_def)
  have c: "projectItems \<lparr>projectItems = None\<rparr> = None \<or>
           (\<exists>pis. projectItems \<lparr>projectItems = None\<rparr> = Some pis \<and>
                  (nodes pis = None \<or> nodes pis = Some []))"
    by simp
  from no_project_item_gives_defaults[OF a b c, simplified variant.case]
    a[simplified query_of.simps] b
  show ?thesis by blast
qed

text \<open>
  C8 as stated fails on the compiled file: with no project item for \<open>issue1\<close>, its row
  carries "closed" in the ninth cell and "N/A" in the tenth, neither empty nor missing.
\<close>

theorem compiled_row_without_item:
  "graphql bare_env GetStoryPoints (node_id issue1) = Inr \<lparr>node = Some \<lparr>projectItems = None\<rparr>\<rparr> \<and>
   map_option (sheet \<circ> final) (start Importer_js bare_env old_world) =
     Some [header Importer_js,
           [JNum 1, JStr ''open'', JStr ''Issue'', JStr ''A'', JStr ''https://h/1'',
            JStr ''bug, ui'', JStr ''alice'', JStr ''v1'', JStr ''closed'', JStr ''N/A'',
            JNull]]"
proof (intro conjI)
  show "graphql bare_env GetStoryPoints (node_id issue1) = Inr \<lparr>node = Some \<lparr>projectItems = None\<rparr>\<rparr>"
    by (simp add: bare_env_def bare_answer_def)
  show "map_option (sheet \<circ> final) (start Importer_js bare_env old_world) =
     Some [header Importer_js,
           [JNum 1, JStr ''open'', JStr ''Issue'', JStr ''A'', JStr ''https://h/1'',
            JStr ''bug, ui'', JStr ''alice'', JStr ''v1'', JStr ''closed'', JStr ''N/A'',
            JNull]]"
    by (simp add: bare_run_js)
qed

subsection \<open>C9: how \<open>start\<close> settles\<close>



text \<open>
  Neither hypothesis can be dropped. The run on \<open>hostile_env\<close> (lemma
  \<open>hostile_run_rejects\<close>) rejects: the \<open>catch\<close> clause is outside the \<open>try\<close>
  block, and \<open>Core.setFailed\<close> throws on the value it cannot print. And with a listing
  that answers every page with an issue the fetch loop does not end.
\<close>

lemma endless_listing_never_settles:
  "listForRepo endless_env = (\<lambda>p. Inr [issue1]) \<and>
   start Importer_ts endless_env old_world = None \<and>
   start Importer_js endless_env old_world = None"
proof -
  have "\<forall>p. \<exists>d. listForRepo endless_env (list_request endless_env p) = Inr d \<and> d \<noteq> []"
    by (simp add: endless_env_def)
  then have "fetch_loop endless_env 1 [] (calls old_world) = None"
    by (rule fetch_loop_never)
  then show ?thesis
    by (simp add: start_def start_body_def check_inputs_def endless_env_def demo_env_def)
qed

subsection \<open>C10: zero story points\<close>

text \<open>
  C10. When the first project item carries the story-point number 0, the extraction
  yields the default, "N/A" in the compiled file and "" in the TypeScript text, and so
  does the tenth cell of the row: the same value as for an answer with no project item.
\<close>

theorem zero_story_points_get_default:
  assumes "first_item r = Inr (Some it)"
      and "(case var of Importer_js \<Rightarrow> fieldValueByName it | Importer_ts \<Rightarrow> storyPoints it) = Some fv"
      and "fv_number fv = Some 0"
      and "graphql e (query_of var) (node_id v) = Inr r"
  shows "\<exists>st row.
           extract_fields var r =
             Inr (st, case var of Importer_js \<Rightarrow> JStr ''N/A'' | Importer_ts \<Rightarrow> JStr []) \<and>
           row_of var e v = Inr row \<and>
           row ! 9 = (case var of Importer_js \<Rightarrow> JStr ''N/A'' | Importer_ts \<Rightarrow> JStr []) \<and>
           row ! 9 = snd (projr (extract_fields var \<lparr>node = Some \<lparr>projectItems = None\<rparr>\<rparr>))"
  using assms
  by (cases var) (simp_all add: row_of_def js_or_def number_of_def first_item_def)

theorem zero_story_points_get_default_witness:
  "first_item zero_answer =
     Inr (Some \<lparr>fieldValueByName = Some \<lparr>fv_name = None, fv_number = Some 0\<rparr>,
                status = Some \<lparr>fv_name = Some ''Todo'', fv_number = None\<rparr>,
                storyPoints = Some \<lparr>fv_name = None, fv_number = Some 0\<rparr>\<rparr>) \<and>
   (\<exists>st row.
      extract_fields Importer_ts zero_answer = Inr (st, JStr []) \<and>
      row_of Importer_ts (demo_env\<lparr>graphql := (\<lambda>q i. Inr zero_answer)\<rparr>) issue1 = Inr row \<and>
      row ! 9 = JStr [])"
proof -
  let ?it = "\<lparr>fieldValueByName = Some \<lparr>fv_name = None, fv_number = Some 0\<rparr>,
                status = Some \<lparr>fv_name = Some ''Todo'', fv_number = None\<rparr>,
                storyPoints = Some \<lparr>fv_name = None, fv_number = Some 0\<rparr>\<rparr>"
  let ?fv = "\<lparr>fv_name = None, fv_number = Some (0::rat)\<rparr>"
  let ?e = "demo_env\<lparr>graphql := (\<lambda>q i. Inr zero_answer)\<rparr>"
  have a: "first_item zero_answer = Inr (Some ?it)"
    by (simp add: first_item_def zero_answer_def)
  have b: "(case Importer_ts of Importer_js \<Rightarrow> fieldValueByName ?it | Importer_ts \<Rightarrow> storyPoints ?it)
             = Some ?fv"
    by simp
  have c: "fv_number ?fv = Some 0" by simp
  have d: "graphql ?e (query_of Importer_ts) (node_id issue1) = Inr zero_answer"
    by simp
  from zero_story_points_get_default[OF a b c d] a show ?thesis by auto
qed

end
